theory Spec2Isabelle
  imports Main
begin

section \<open>JavaScript values\<close>

text \<open>
  The dashboard reads backend payloads as untyped JSON (\<^verbatim>\<open>any\<close> in the TypeScript
  source), so the handlers are modelled over JavaScript values. Numbers are the integers
  (fractional JSON numbers are outside the model); an object is the association list of
  its own properties, looked up by key.
\<close>

datatype jsval =
    JUndefined
  | JNull
  | JBool bool
  | JNum int
  | JStr string
  | JArr "jsval list"
  | JObj "(string \<times> jsval) list"

text \<open>What a \<^verbatim>\<open>throw\<close> or a rejected promise carries: an \<^verbatim>\<open>Error\<close> instance with
  its message, or any other value.\<close>

datatype thrown = ErrorObject string | OtherThrown

text \<open>ToBoolean.\<close>

fun truthy :: "jsval \<Rightarrow> bool" where
  "truthy JUndefined = False"
| "truthy JNull = False"
| "truthy (JBool b) = b"
| "truthy (JNum n) = (n \<noteq> 0)"
| "truthy (JStr s) = (s \<noteq> [])"
| "truthy (JArr xs) = True"
| "truthy (JObj kvs) = True"

text \<open>\<^verbatim>\<open>a || b\<close>.\<close>

definition js_or :: "jsval \<Rightarrow> jsval \<Rightarrow> jsval" where
  "js_or a b = (if truthy a then a else b)"

text \<open>
  Built-ins of the JavaScript engine that the source calls and whose results the model
  does not fix: they are parameters of the handlers, and every theorem holds for each
  choice of them. \<^verbatim>\<open>parseInt\<close> and the string-to-number conversion give \<open>None\<close> for
  \<^verbatim>\<open>NaN\<close>; \<^verbatim>\<open>JSON.stringify\<close> gives \<^verbatim>\<open>undefined\<close> or a string.
\<close>

record engine =
  typeError_message :: "string \<Rightarrow> string"
  parseInt :: "string \<Rightarrow> int option"
  stringToNumber :: "string \<Rightarrow> int option"
  JSON_stringify :: "jsval \<Rightarrow> jsval"
  toLocaleString :: "int \<Rightarrow> string"
  date_toLocaleString :: "jsval \<Rightarrow> string"

text \<open>
  \<^verbatim>\<open>v.p\<close> for a data property \<^verbatim>\<open>p\<close>: reading from \<^verbatim>\<open>null\<close> or \<^verbatim>\<open>undefined\<close> throws a
  TypeError; arrays and strings have \<^verbatim>\<open>length\<close>; a missing property is \<^verbatim>\<open>undefined\<close>.
  \<^verbatim>\<open>v?.p\<close> gives \<^verbatim>\<open>undefined\<close> instead of throwing.
\<close>

fun get_prop :: "engine \<Rightarrow> jsval \<Rightarrow> string \<Rightarrow> thrown + jsval" where
  "get_prop E JUndefined p = Inl (ErrorObject (typeError_message E p))"
| "get_prop E JNull p = Inl (ErrorObject (typeError_message E p))"
| "get_prop E (JObj kvs) p = Inr (case map_of kvs p of Some v \<Rightarrow> v | None \<Rightarrow> JUndefined)"
| "get_prop E (JArr xs) p = Inr (if p = ''length'' then JNum (int (length xs)) else JUndefined)"
| "get_prop E (JStr s) p = Inr (if p = ''length'' then JNum (int (length s)) else JUndefined)"
| "get_prop E (JBool b) p = Inr JUndefined"
| "get_prop E (JNum n) p = Inr JUndefined"

fun opt_prop :: "jsval \<Rightarrow> string \<Rightarrow> jsval" where
  "opt_prop JUndefined p = JUndefined"
| "opt_prop JNull p = JUndefined"
| "opt_prop (JObj kvs) p = (case map_of kvs p of Some v \<Rightarrow> v | None \<Rightarrow> JUndefined)"
| "opt_prop (JArr xs) p = (if p = ''length'' then JNum (int (length xs)) else JUndefined)"
| "opt_prop (JStr s) p = (if p = ''length'' then JNum (int (length s)) else JUndefined)"
| "opt_prop (JBool b) p = JUndefined"
| "opt_prop (JNum n) p = JUndefined"

text \<open>Number-to-string for integers, and ToString.\<close>

definition digit_char :: "nat \<Rightarrow> char" where
  "digit_char d = ''0123456789'' ! (d mod 10)"

function digits_of_nat :: "nat \<Rightarrow> string" where
  "digits_of_nat n =
     (if n < 10 then [digit_char n] else digits_of_nat (n div 10) @ [digit_char (n mod 10)])"
  by pat_completeness auto
termination
  by (relation "measure (\<lambda>n. n)") auto

definition number_toString :: "int \<Rightarrow> string" where
  "number_toString n =
     (if n < 0 then CHR ''-'' # digits_of_nat (nat (- n)) else digits_of_nat (nat n))"

fun join_commas :: "string list \<Rightarrow> string" where
  "join_commas [] = []"
| "join_commas [x] = x"
| "join_commas (x # y # ys) = x @ '','' @ join_commas (y # ys)"

fun js_String :: "jsval \<Rightarrow> string" where
  "js_String JUndefined = ''undefined''"
| "js_String JNull = ''null''"
| "js_String (JBool b) = (if b then ''true'' else ''false'')"
| "js_String (JNum n) = number_toString n"
| "js_String (JStr s) = s"
| "js_String (JArr xs) =
     join_commas (map (\<lambda>x. if x = JNull \<or> x = JUndefined then [] else js_String x) xs)"
| "js_String (JObj kvs) = ''[object Object]''"

text \<open>\<^verbatim>\<open>arr.map(f)\<close> where \<^verbatim>\<open>f\<close> may throw: only an array has \<^verbatim>\<open>map\<close>.\<close>

fun mapM :: "('a \<Rightarrow> thrown + 'b) \<Rightarrow> 'a list \<Rightarrow> thrown + 'b list" where
  "mapM f [] = Inr []"
| "mapM f (x # xs) =
     (case f x of
        Inl t \<Rightarrow> Inl t
      | Inr y \<Rightarrow> (case mapM f xs of Inl t \<Rightarrow> Inl t | Inr ys \<Rightarrow> Inr (y # ys)))"

definition array_map :: "engine \<Rightarrow> (jsval \<Rightarrow> thrown + 'b) \<Rightarrow> jsval \<Rightarrow> thrown + 'b list" where
  "array_map E f v =
     (case v of
        JArr xs \<Rightarrow> mapM f xs
      | _ \<Rightarrow> Inl (ErrorObject (typeError_message E ''map'')))"

section \<open>Effects: notifications, the network, the console\<close>

datatype toast = ToastError jsval | ToastSuccess jsval

datatype request = Request (req_method: string) (req_url: string) (req_body: jsval)

text \<open>A response: its \<^verbatim>\<open>ok\<close> flag and what \<^verbatim>\<open>response.json()\<close> resolves to or rejects
  with. \<^verbatim>\<open>fetch\<close> itself resolves to a response or rejects.\<close>

datatype http_response = Response (ok: bool) (json: "thrown + jsval")

type_synonym network = "request \<Rightarrow> thrown + http_response"

record effects =
  toasts :: "toast list"
  requests :: "request list"
  console :: "(string \<times> thrown) list"

text \<open>\<^verbatim>\<open>error instanceof Error ? error.message : fallback\<close>.\<close>

fun message_or :: "thrown \<Rightarrow> string \<Rightarrow> string" where
  "message_or (ErrorObject m) fallback = m"
| "message_or OtherThrown fallback = fallback"

section \<open>Types of the data model (\<^verbatim>\<open>@/types\<close>)\<close>

datatype DataSourceType =
    postgresql | mysql | mongodb | sqlite | csv | excel
  | rest_api | graphql | snowflake | bigquery | redshift

datatype DataSourceStatus = connected | disconnected | status_error

record ConnectionConfig =
  cfg_host :: "string option"
  cfg_port :: "int option"
  cfg_database :: "string option"
  cfg_username :: "string option"
  cfg_password :: "string option"
  cfg_ssl :: "bool option"
  cfg_url :: "string option"
  cfg_apiKey :: "string option"
  cfg_headers :: "(string \<times> string) list option"
  cfg_filePath :: "string option"

record ColumnSchema =
  col_name :: string
  col_type :: string
  col_nullable :: bool
  col_primaryKey :: bool
  col_foreignKey :: "(string \<times> string) option"
  col_description :: "string option"

record TableSchema =
  tbl_name :: string
  tbl_columns :: "ColumnSchema list"
  tbl_rowCount :: "int option"
  tbl_sampleData :: "(string \<times> jsval) list list option"

record DatabaseSchema =
  sch_tables :: "TableSchema list"

text \<open>Dates are kept as millisecond timestamps.\<close>

record DataSource =
  ds_id :: string
  ds_name :: string
  ds_type :: DataSourceType
  ds_config :: ConnectionConfig
  ds_status :: DataSourceStatus
  ds_lastConnected :: "int option"
  ds_schema :: "DatabaseSchema option"
  ds_createdAt :: int
  ds_updatedAt :: int

section \<open>The data-source store (\<^verbatim>\<open>lib/store.ts\<close>)\<close>

record DataSourceState =
  dataSources :: "DataSource list"
  selectedDataSource :: "DataSource option"
  isConnecting :: bool
  error :: "string option"

definition initialDataSourceState :: DataSourceState where
  "initialDataSourceState =
     \<lparr>dataSources = [], selectedDataSource = None, isConnecting = False, error = None\<rparr>"

definition addDataSource :: "DataSource \<Rightarrow> DataSourceState \<Rightarrow> DataSourceState" where
  "addDataSource dataSource state =
     state\<lparr>dataSources := dataSources state @ [dataSource]\<rparr>"

text \<open>\<^verbatim>\<open>state.selectedDataSource?.id === id\<close>: with no selection the left side is
  \<^verbatim>\<open>undefined\<close>, which is never equal to the string \<^verbatim>\<open>id\<close>.\<close>

definition removeDataSource :: "string \<Rightarrow> DataSourceState \<Rightarrow> DataSourceState" where
  "removeDataSource i state =
     state\<lparr>dataSources := filter (\<lambda>ds. ds_id ds \<noteq> i) (dataSources state),
            selectedDataSource :=
              (case selectedDataSource state of
                 None \<Rightarrow> selectedDataSource state
               | Some sel \<Rightarrow> if ds_id sel = i then None else selectedDataSource state)\<rparr>"

text \<open>\<^verbatim>\<open>id ? state.dataSources.find(...) || null : null\<close>; the empty string is falsy.\<close>

definition selectDataSource :: "string option \<Rightarrow> DataSourceState \<Rightarrow> DataSourceState" where
  "selectDataSource i state =
     state\<lparr>selectedDataSource :=
              (case i of
                 None \<Rightarrow> None
               | Some k \<Rightarrow> if k = [] then None
                          else find (\<lambda>ds. ds_id ds = k) (dataSources state))\<rparr>"

section \<open>The data sources page (\<^verbatim>\<open>DataSourcesPage\<close>)\<close>

text \<open>The table of connectable types; an icon is kept as its Unicode code points.\<close>

record DataSourceTypeInfo =
  type_id :: string
  type_name :: string
  icon :: "nat list"
  defaultPort :: string

definition dataSourceTypes :: "DataSourceTypeInfo list" where
  "dataSourceTypes =
     [\<lparr>type_id = ''postgresql'', type_name = ''PostgreSQL'', icon = [0x1F418], defaultPort = ''5432''\<rparr>,
      \<lparr>type_id = ''mysql'', type_name = ''MySQL'', icon = [0x1F42C], defaultPort = ''3306''\<rparr>,
      \<lparr>type_id = ''mongodb'', type_name = ''MongoDB'', icon = [0x1F343], defaultPort = ''27017''\<rparr>,
      \<lparr>type_id = ''sqlite'', type_name = ''SQLite'', icon = [0x1F4E6], defaultPort = []\<rparr>,
      \<lparr>type_id = ''snowflake'', type_name = ''Snowflake'', icon = [0x2744, 0xFE0F], defaultPort = []\<rparr>,
      \<lparr>type_id = ''bigquery'', type_name = ''BigQuery'', icon = [0x1F4CA], defaultPort = []\<rparr>,
      \<lparr>type_id = ''redshift'', type_name = ''Redshift'', icon = [0x1F534], defaultPort = ''5439''\<rparr>,
      \<lparr>type_id = ''csv'', type_name = ''CSV File'', icon = [0x1F4C4], defaultPort = []\<rparr>,
      \<lparr>type_id = ''rest_api'', type_name = ''REST API'', icon = [0x1F517], defaultPort = []\<rparr>]"

record ConnectionForm =
  name :: string
  host :: string
  port :: string
  database :: string
  username :: string
  password :: string
  url :: string
  apiKey :: string

datatype ConnectionFormKey =
  key_name | key_host | key_port | key_database | key_username | key_password
  | key_url | key_apiKey

text \<open>An entry of the page's list, as \<^verbatim>\<open>loadDataSources\<close> builds it from a payload item.\<close>

record SourceCard =
  card_id :: jsval
  card_name :: jsval
  card_type :: jsval
  card_status :: jsval
  card_tables :: jsval
  card_lastConnected :: jsval

text \<open>
  The page's state. \<open>dsp_fileInput\<close> is the file chosen in the uncontrolled
  \<^verbatim>\<open><Input id="file" type="file">\<close> of the dialog, which lives in the DOM and not in a
  React state variable.
\<close>

record DataSourcesPage = effects +
  dsp_searchQuery :: string
  dsp_isDialogOpen :: bool
  dsp_selectedType :: string
  dsp_isConnecting :: bool
  dsp_dataSources :: "SourceCard list"
  dsp_formData :: ConnectionForm
  dsp_fileInput :: "string option"

definition emptyForm :: ConnectionForm where
  "emptyForm =
     \<lparr>name = [], host = ''localhost'', port = [], database = [], username = [],
      password = [], url = [], apiKey = []\<rparr>"

definition datasources_url :: string where
  "datasources_url = ''http://localhost:8000/api/v1/datasources''"

definition source_card :: "engine \<Rightarrow> jsval \<Rightarrow> thrown + SourceCard" where
  "source_card E s =
     (case get_prop E s ''id'' of
        Inl t \<Rightarrow> Inl t
      | Inr i \<Rightarrow>
          Inr \<lparr>card_id = i,
               card_name = opt_prop s ''name'',
               card_type = opt_prop s ''type'',
               card_status = js_or (opt_prop s ''status'') (JStr ''connected''),
               card_tables =
                 js_or (opt_prop (opt_prop (opt_prop s ''schema_data'') ''tables'') ''length'')
                   (JNum 0),
               card_lastConnected = opt_prop s ''last_synced''\<rparr>)"

definition console_error :: "string \<Rightarrow> thrown \<Rightarrow> ('a effects_scheme) \<Rightarrow> ('a effects_scheme)" where
  "console_error label t s = s\<lparr>console := console s @ [(label, t)]\<rparr>"

definition send :: "request \<Rightarrow> ('a effects_scheme) \<Rightarrow> ('a effects_scheme)" where
  "send r s = s\<lparr>requests := requests s @ [r]\<rparr>"

definition notify :: "toast \<Rightarrow> ('a effects_scheme) \<Rightarrow> ('a effects_scheme)" where
  "notify t s = s\<lparr>toasts := toasts s @ [t]\<rparr>"

definition loadDataSources :: "engine \<Rightarrow> network \<Rightarrow> DataSourcesPage \<Rightarrow> DataSourcesPage" where
  "loadDataSources E net s =
     (let r = Request ''GET'' datasources_url JUndefined;
          s1 = send r s
      in case net r of
           Inl t \<Rightarrow> console_error ''Failed to load data sources:'' t s1
         | Inr response \<Rightarrow>
             if ok response then
               (case json response of
                  Inl t \<Rightarrow> console_error ''Failed to load data sources:'' t s1
                | Inr sources \<Rightarrow>
                    (case array_map E (source_card E) sources of
                       Inl t \<Rightarrow> console_error ''Failed to load data sources:'' t s1
                     | Inr cards \<Rightarrow> s1\<lparr>dsp_dataSources := cards\<rparr>))
             else s1)"

definition handleTypeSelect :: "string \<Rightarrow> DataSourcesPage \<Rightarrow> DataSourcesPage" where
  "handleTypeSelect typeId s =
     (let s1 = s\<lparr>dsp_selectedType := typeId\<rparr>
      in case find (\<lambda>t. type_id t = typeId) dataSourceTypes of
           None \<Rightarrow> s1
         | Some typeInfo \<Rightarrow>
             s1\<lparr>dsp_formData := (dsp_formData s1)\<lparr>port := defaultPort typeInfo\<rparr>\<rparr>)"

fun set_field :: "ConnectionFormKey \<Rightarrow> string \<Rightarrow> ConnectionForm \<Rightarrow> ConnectionForm" where
  "set_field key_name v f = f\<lparr>name := v\<rparr>"
| "set_field key_host v f = f\<lparr>host := v\<rparr>"
| "set_field key_port v f = f\<lparr>port := v\<rparr>"
| "set_field key_database v f = f\<lparr>database := v\<rparr>"
| "set_field key_username v f = f\<lparr>username := v\<rparr>"
| "set_field key_password v f = f\<lparr>password := v\<rparr>"
| "set_field key_url v f = f\<lparr>url := v\<rparr>"
| "set_field key_apiKey v f = f\<lparr>apiKey := v\<rparr>"

definition handleInputChange ::
  "ConnectionFormKey \<Rightarrow> string \<Rightarrow> DataSourcesPage \<Rightarrow> DataSourcesPage" where
  "handleInputChange field v s = s\<lparr>dsp_formData := set_field field v (dsp_formData s)\<rparr>"

definition resetForm :: "DataSourcesPage \<Rightarrow> DataSourcesPage" where
  "resetForm s = s\<lparr>dsp_selectedType := [], dsp_formData := emptyForm\<rparr>"

text \<open>\<^verbatim>\<open>parseInt(formData.port) || undefined\<close>: zero and \<^verbatim>\<open>NaN\<close> are falsy.\<close>

definition port_or_undefined :: "engine \<Rightarrow> string \<Rightarrow> jsval" where
  "port_or_undefined E p =
     (case parseInt E p of
        None \<Rightarrow> JUndefined
      | Some n \<Rightarrow> js_or (JNum n) JUndefined)"

text \<open>The connection config built from the selected type.\<close>

definition connectionConfig :: "engine \<Rightarrow> string \<Rightarrow> ConnectionForm \<Rightarrow> jsval" where
  "connectionConfig E selectedType formData =
     (if selectedType = ''rest_api'' then
        JObj [(''url'', JStr (url formData)), (''api_key'', JStr (apiKey formData))]
      else if selectedType = ''csv'' then
        JObj [(''file_path'', JStr (name formData))]
      else
        JObj [(''host'', JStr (host formData)),
              (''port'', port_or_undefined E (port formData)),
              (''database'', JStr (database formData)),
              (''username'', JStr (username formData)),
              (''password'', JStr (password formData))])"

text \<open>The request of \<^verbatim>\<open>handleConnect\<close>; its body is the object handed to
  \<^verbatim>\<open>JSON.stringify\<close>.\<close>

definition create_request :: "engine \<Rightarrow> DataSourcesPage \<Rightarrow> request" where
  "create_request E s =
     Request ''POST'' datasources_url
       (JObj [(''name'', JStr (name (dsp_formData s))),
              (''type'', JStr (dsp_selectedType s)),
              (''config'', connectionConfig E (dsp_selectedType s) (dsp_formData s))])"

text \<open>The \<^verbatim>\<open>try\<close> block of \<^verbatim>\<open>handleConnect\<close>, after the request has been sent: the state
  it ends in, or what it throws.\<close>

definition connect_try ::
  "engine \<Rightarrow> network \<Rightarrow> request \<Rightarrow> DataSourcesPage \<Rightarrow> thrown + DataSourcesPage" where
  "connect_try E net r s1 =
     (case net r of
        Inl t \<Rightarrow> Inl t
      | Inr response \<Rightarrow>
          if \<not> ok response then
            (case json response of
               Inl t \<Rightarrow> Inl t
             | Inr err \<Rightarrow>
                 (case get_prop E err ''detail'' of
                    Inl t \<Rightarrow> Inl t
                  | Inr detail \<Rightarrow>
                      Inl (ErrorObject
                            (js_String (js_or detail (JStr ''Failed to connect to data source''))))))
          else
            Inr (resetForm
                  ((notify (ToastSuccess (JStr ''Data source connected successfully!''))
                     (loadDataSources E net s1))\<lparr>dsp_isDialogOpen := False\<rparr>)))"

definition handleConnect :: "engine \<Rightarrow> network \<Rightarrow> DataSourcesPage \<Rightarrow> DataSourcesPage" where
  "handleConnect E net s =
     (if name (dsp_formData s) = [] then
        notify (ToastError (JStr ''Please enter a connection name'')) s
      else
        let r = create_request E s;
            s1 = send r s;
            s2 = (case connect_try E net r s1 of
                    Inl t \<Rightarrow>
                      notify (ToastError (JStr (message_or t ''Failed to connect to data source'')))
                        (console_error ''Connection error:'' t s1)
                  | Inr s' \<Rightarrow> s')
        in s2\<lparr>dsp_isConnecting := False\<rparr>)"

text \<open>The fields the dialog renders under "Connection Details" for the selected type
  (nothing while no type is selected).\<close>

datatype form_field =
  NameField | HostField | PortField | DatabaseField | UsernameField | PasswordField
  | UrlField | ApiKeyField | FileField

definition connectionDetails :: "string \<Rightarrow> form_field list" where
  "connectionDetails selectedType =
     (if selectedType = [] then []
      else [NameField]
        @ (if selectedType \<noteq> ''csv'' \<and> selectedType \<noteq> ''rest_api''
           then [HostField, PortField, DatabaseField, UsernameField, PasswordField] else [])
        @ (if selectedType = ''rest_api'' then [UrlField, ApiKeyField] else [])
        @ (if selectedType = ''csv'' then [FileField] else []))"

text \<open>The keys of an object, in order.\<close>

fun object_keys :: "jsval \<Rightarrow> string list" where
  "object_keys (JObj kvs) = map fst kvs"
| "object_keys v = []"

definition initialDataSourcesPage :: DataSourcesPage where
  "initialDataSourcesPage =
     \<lparr>toasts = [], requests = [], console = [],
      dsp_searchQuery = [], dsp_isDialogOpen = False, dsp_selectedType = [],
      dsp_isConnecting = False, dsp_dataSources = [], dsp_formData = emptyForm,
      dsp_fileInput = None\<rparr>"

section \<open>The explorer page (\<^verbatim>\<open>ExplorerPage\<close>)\<close>

text \<open>
  \<^verbatim>\<open>String.prototype.trim\<close> on strings of 8-bit code units: the white space and line
  terminators in that range are TAB, LF, VT, FF, CR, SPACE and NBSP.
\<close>

definition is_whitespace :: "char \<Rightarrow> bool" where
  "is_whitespace c = (of_char c \<in> {9, 10, 11, 12, 13, 32, 160 :: nat})"

definition trim :: "string \<Rightarrow> string" where
  "trim s = rev (dropWhile is_whitespace (rev (dropWhile is_whitespace s)))"

text \<open>An entry of the schema browser's list of data sources.\<close>

record DataSourceWithSchema =
  dws_id :: jsval
  dws_name :: jsval
  dws_type :: jsval
  dws_tables :: jsval

text \<open>The page's state: \<^verbatim>\<open>columns\<close> and \<^verbatim>\<open>results\<close> hold whatever the response
  carried; \<^verbatim>\<open>results\<close> starts as \<^verbatim>\<open>null\<close>.\<close>

record ExplorerPage = effects +
  exp_dataSources :: "DataSourceWithSchema list"
  exp_selectedDataSource :: string
  exp_selectedTable :: string
  exp_query :: string
  exp_isExecuting :: bool
  exp_columns :: jsval
  exp_results :: jsval
  exp_executionTime :: "int option"
  exp_isLoading :: bool

definition initialExplorerPage :: ExplorerPage where
  "initialExplorerPage =
     \<lparr>toasts = [], requests = [], console = [],
      exp_dataSources = [], exp_selectedDataSource = [], exp_selectedTable = [],
      exp_query = [], exp_isExecuting = False, exp_columns = JArr [], exp_results = JNull,
      exp_executionTime = None, exp_isLoading = True\<rparr>"

text \<open>
  The message taken from the body of a failed response:
  \<^verbatim>\<open>typeof error.detail === 'string' ? error.detail
     : (error.detail?.message || error.message || JSON.stringify(error.detail)
        || "Query execution failed")\<close>.
\<close>

definition errorMessage :: "engine \<Rightarrow> jsval \<Rightarrow> thrown + jsval" where
  "errorMessage E err =
     (case get_prop E err ''detail'' of
        Inl t \<Rightarrow> Inl t
      | Inr detail \<Rightarrow>
          Inr (case detail of
                 JStr d \<Rightarrow> JStr d
               | _ \<Rightarrow>
                   js_or (js_or (js_or (opt_prop detail ''message'') (opt_prop err ''message''))
                                (JSON_stringify E detail))
                         (JStr ''Query execution failed'')))"

definition query_request :: "ExplorerPage \<Rightarrow> request" where
  "query_request s =
     Request ''POST''
       (''http://localhost:8000/api/v1/datasources/'' @ exp_selectedDataSource s @ ''/query'')
       (JObj [(''query'', JStr (trim (exp_query s)))])"

text \<open>
  The \<^verbatim>\<open>try\<close> block of \<^verbatim>\<open>handleExecuteQuery\<close> once the request is sent; \<open>t0\<close> and \<open>t1\<close>
  are the two readings of \<^verbatim>\<open>Date.now()\<close>. It ends in a new state or throws; every
  \<^verbatim>\<open>throw\<close> happens before the first state setter.
\<close>

definition execute_try ::
  "engine \<Rightarrow> network \<Rightarrow> request \<Rightarrow> int \<Rightarrow> int \<Rightarrow> ExplorerPage \<Rightarrow> thrown + ExplorerPage" where
  "execute_try E net r t0 t1 s1 =
     (case net r of
        Inl t \<Rightarrow> Inl t
      | Inr response \<Rightarrow>
          if \<not> ok response then
            (case json response of
               Inl t \<Rightarrow> Inl t
             | Inr err \<Rightarrow>
                 (case errorMessage E err of
                    Inl t \<Rightarrow> Inl t
                  | Inr m \<Rightarrow> Inl (ErrorObject (js_String m))))
          else
            (case json response of
               Inl t \<Rightarrow> Inl t
             | Inr result \<Rightarrow>
                 (case get_prop E result ''columns'' of
                    Inl t \<Rightarrow> Inl t
                  | Inr cols \<Rightarrow>
                      Inr (notify
                            (ToastSuccess
                              (JStr (''Query executed successfully (''
                                     @ js_String
                                         (js_or (opt_prop (opt_prop result ''rows'') ''length'')
                                                (JNum 0))
                                     @ '' rows)'')))
                            (s1\<lparr>exp_columns := js_or cols (JArr []),
                                exp_results := js_or (opt_prop result ''rows'') (JArr []),
                                exp_executionTime := Some (t1 - t0)\<rparr>)))))"

definition handleExecuteQuery ::
  "engine \<Rightarrow> network \<Rightarrow> int \<Rightarrow> int \<Rightarrow> ExplorerPage \<Rightarrow> ExplorerPage" where
  "handleExecuteQuery E net t0 t1 s =
     (if trim (exp_query s) = [] \<or> exp_selectedDataSource s = [] then s
      else
        let r = query_request s;
            s1 = send r s;
            s2 = (case execute_try E net r t0 t1 s1 of
                    Inl t \<Rightarrow>
                      notify (ToastError (JStr (message_or t ''Failed to execute query'')))
                        (console_error ''Query error:'' t s1)
                  | Inr s' \<Rightarrow> s')
        in s2\<lparr>exp_isExecuting := False\<rparr>)"

definition handleTableSelect :: "string \<Rightarrow> ExplorerPage \<Rightarrow> ExplorerPage" where
  "handleTableSelect tableName s =
     s\<lparr>exp_selectedTable := tableName,
       exp_query := ''SELECT * FROM '' @ tableName @ '' LIMIT 100;''\<rparr>"

text \<open>
  The results table. A cell shows the marker NULL for \<^verbatim>\<open>null\<close>, a number through
  \<^verbatim>\<open>toLocaleString\<close>, anything else through \<^verbatim>\<open>String\<close>. The header has one cell per
  element of \<^verbatim>\<open>columns\<close> (its \<^verbatim>\<open>name\<close>); a body row has one cell per element of the
  row. While \<^verbatim>\<open>results\<close> is falsy the placeholder is shown instead (\<open>None\<close>).
\<close>

datatype cell = NullCell | TextCell string

definition render_cell :: "engine \<Rightarrow> jsval \<Rightarrow> cell" where
  "render_cell E v =
     (if v = JNull then NullCell
      else case v of
             JNum n \<Rightarrow> TextCell (toLocaleString E n)
           | _ \<Rightarrow> TextCell (js_String v))"

record results_table =
  table_header :: "jsval list"
  table_body :: "cell list list"

definition results_view :: "engine \<Rightarrow> ExplorerPage \<Rightarrow> thrown + results_table option" where
  "results_view E s =
     (if truthy (exp_results s) then
        (case array_map E (\<lambda>col. get_prop E col ''name'') (exp_columns s) of
           Inl t \<Rightarrow> Inl t
         | Inr hs \<Rightarrow>
             (case array_map E (array_map E (\<lambda>v. Inr (render_cell E v))) (exp_results s) of
                Inl t \<Rightarrow> Inl t
              | Inr rows \<Rightarrow> Inr (Some \<lparr>table_header = hs, table_body = rows\<rparr>)))
      else Inr None)"

text \<open>
  The row invariant in the words of the specification, as a check on a stored
  \<^verbatim>\<open>columns\<close>/\<^verbatim>\<open>rows\<close> pair: both are arrays, every row is an array, and every row
  is as long as \<^verbatim>\<open>columns\<close>.
\<close>

fun row_length_is :: "nat \<Rightarrow> jsval \<Rightarrow> bool" where
  "row_length_is n (JArr vs) = (length vs = n)"
| "row_length_is n v = False"

fun spec_rows_match_columns :: "jsval \<Rightarrow> jsval \<Rightarrow> bool" where
  "spec_rows_match_columns (JArr cols) (JArr rows) = list_all (row_length_is (length cols)) rows"
| "spec_rows_match_columns cols rows = False"

section \<open>The insights page (\<^verbatim>\<open>InsightsPage\<close>)\<close>

text \<open>\<^verbatim>\<open>a === b\<close> on values parsed from JSON: primitives compare by value, and two
  distinct arrays or objects are never identical.\<close>

fun strict_eq :: "jsval \<Rightarrow> jsval \<Rightarrow> bool" where
  "strict_eq JUndefined JUndefined = True"
| "strict_eq JNull JNull = True"
| "strict_eq (JBool a) (JBool b) = (a = b)"
| "strict_eq (JNum a) (JNum b) = (a = b)"
| "strict_eq (JStr a) (JStr b) = (a = b)"
| "strict_eq a b = False"

text \<open>\<^verbatim>\<open>v[0]\<close> for a value that is not \<^verbatim>\<open>null\<close> or \<^verbatim>\<open>undefined\<close>.\<close>

fun index0 :: "jsval \<Rightarrow> jsval" where
  "index0 (JArr (x # xs)) = x"
| "index0 (JObj kvs) = (case map_of kvs ''0'' of Some v \<Rightarrow> v | None \<Rightarrow> JUndefined)"
| "index0 (JStr (c # cs)) = JStr [c]"
| "index0 v = JUndefined"

text \<open>\<^verbatim>\<open>arr.find(p)\<close> where \<^verbatim>\<open>p\<close> may throw; \<^verbatim>\<open>undefined\<close> when nothing matches.\<close>

fun findM :: "(jsval \<Rightarrow> thrown + bool) \<Rightarrow> jsval list \<Rightarrow> thrown + jsval" where
  "findM p [] = Inr JUndefined"
| "findM p (x # xs) =
     (case p x of
        Inl t \<Rightarrow> Inl t
      | Inr b \<Rightarrow> if b then Inr x else findM p xs)"

definition array_find :: "engine \<Rightarrow> (jsval \<Rightarrow> thrown + bool) \<Rightarrow> jsval \<Rightarrow> thrown + jsval" where
  "array_find E p v =
     (case v of
        JArr xs \<Rightarrow> findM p xs
      | _ \<Rightarrow> Inl (ErrorObject (typeError_message E ''find'')))"

text \<open>An insight as the page keeps it after transforming a payload item.\<close>

record InsightCard =
  insight_id :: jsval
  insight_title :: jsval
  insight_description :: jsval
  insight_type :: jsval
  insight_severity :: jsval
  insight_dataSource :: jsval
  insight_confidence :: jsval
  insight_createdAt :: jsval
  insight_visualization :: jsval
  insight_metrics :: jsval

text \<open>The page's state; \<^verbatim>\<open>dataSources\<close> is whatever the list endpoint answered.\<close>

record InsightsPage = effects +
  ins_selectedType :: string
  ins_isGenerating :: bool
  ins_insights :: "InsightCard list"
  ins_dataSources :: jsval
  ins_selectedDataSource :: string
  ins_isLoading :: bool

definition initialInsightsPage :: InsightsPage where
  "initialInsightsPage =
     \<lparr>toasts = [], requests = [], console = [],
      ins_selectedType = ''all'', ins_isGenerating = False, ins_insights = [],
      ins_dataSources = JArr [], ins_selectedDataSource = ''all'', ins_isLoading = True\<rparr>"

definition generate_url :: string where
  "generate_url = ''http://localhost:8000/api/v1/insights/generate''"

text \<open>The transformation of one payload item inside \<^verbatim>\<open>handleGenerateInsights\<close>.\<close>

definition transformInsight :: "engine \<Rightarrow> jsval \<Rightarrow> jsval \<Rightarrow> thrown + InsightCard" where
  "transformInsight E sources item =
     (case get_prop E item ''id'' of
        Inl t \<Rightarrow> Inl t
      | Inr i \<Rightarrow>
          (case array_find E
                  (\<lambda>ds. case get_prop E ds ''id'' of
                           Inl t \<Rightarrow> Inl t
                         | Inr k \<Rightarrow> Inr (strict_eq k (opt_prop item ''data_source_id'')))
                  sources of
             Inl t \<Rightarrow> Inl t
           | Inr found \<Rightarrow>
               Inr \<lparr>insight_id = i,
                    insight_title = opt_prop item ''title'',
                    insight_description = opt_prop item ''description'',
                    insight_type =
                      js_or (js_or (opt_prop item ''insight_type'') (opt_prop item ''type''))
                            (JStr ''trend''),
                    insight_severity = js_or (opt_prop item ''severity'') (JStr ''info''),
                    insight_dataSource = js_or (opt_prop found ''name'') (JStr ''Unknown''),
                    insight_confidence = js_or (opt_prop item ''confidence'') (JNum 85),
                    insight_createdAt =
                      (if truthy (opt_prop item ''created_at'')
                       then JStr (date_toLocaleString E (opt_prop item ''created_at''))
                       else JStr ''Just now''),
                    insight_visualization = js_or (opt_prop item ''visualization'') (JStr ''bar''),
                    insight_metrics = js_or (opt_prop item ''metrics'') (JArr [])\<rparr>))"

definition generate_request :: "InsightsPage \<Rightarrow> request" where
  "generate_request s =
     Request ''POST'' generate_url
       (JObj [(''data_source_id'',
               if ins_selectedDataSource s = ''all''
               then opt_prop (index0 (ins_dataSources s)) ''id''
               else JStr (ins_selectedDataSource s)),
              (''max_insights'', JNum 5)])"

text \<open>The \<^verbatim>\<open>try\<close> block of \<^verbatim>\<open>handleGenerateInsights\<close> once the request is sent. For a
  failed response, a body that is not JSON counts as the empty object.\<close>

definition generate_try ::
  "engine \<Rightarrow> network \<Rightarrow> request \<Rightarrow> InsightsPage \<Rightarrow> thrown + InsightsPage" where
  "generate_try E net r s1 =
     (case net r of
        Inl t \<Rightarrow> Inl t
      | Inr res \<Rightarrow>
          if ok res then
            (case json res of
               Inl t \<Rightarrow> Inl t
             | Inr data \<Rightarrow>
                 (case array_map E (transformInsight E (ins_dataSources s1)) data of
                    Inl t \<Rightarrow> Inl t
                  | Inr transformedInsights \<Rightarrow>
                      Inr (notify
                            (ToastSuccess
                              (JStr (''Generated ''
                                     @ number_toString (int (length transformedInsights))
                                     @ '' insights!'')))
                            (s1\<lparr>ins_insights := transformedInsights\<rparr>))))
          else
            (case get_prop E (case json res of Inl t \<Rightarrow> JObj [] | Inr e \<Rightarrow> e) ''detail'' of
               Inl t \<Rightarrow> Inl t
             | Inr detail \<Rightarrow>
                 Inr (notify (ToastError (js_or detail (JStr ''Failed to generate insights''))) s1)))"

text \<open>
  \<^verbatim>\<open>handleGenerateInsights\<close>. The guard \<^verbatim>\<open>dataSources.length === 0\<close> stands before the
  \<^verbatim>\<open>try\<close>, so a throw there leaves the handler (\<open>Inl\<close>).
\<close>

definition handleGenerateInsights :: "engine \<Rightarrow> network \<Rightarrow> InsightsPage \<Rightarrow> thrown + InsightsPage" where
  "handleGenerateInsights E net s =
     (case get_prop E (ins_dataSources s) ''length'' of
        Inl t \<Rightarrow> Inl t
      | Inr len \<Rightarrow>
          if strict_eq len (JNum 0) then
            Inr (notify (ToastError (JStr ''Please connect a data source first'')) s)
          else
            let r = generate_request s;
                s1 = send r s;
                s2 = (case generate_try E net r s1 of
                        Inl t \<Rightarrow>
                          notify (ToastError (JStr ''Failed to connect to API''))
                            (console_error ''Error generating insights:'' t s1)
                      | Inr s' \<Rightarrow> s')
            in Inr (s2\<lparr>ins_isGenerating := False\<rparr>))"

definition filteredInsights :: "InsightsPage \<Rightarrow> InsightCard list" where
  "filteredInsights s =
     (if ins_selectedType s = ''all'' then ins_insights s
      else filter (\<lambda>insight. strict_eq (insight_type insight) (JStr (ins_selectedType s)))
             (ins_insights s))"

text \<open>
  What the page renders: the header's buttons (always Export and Generate Insights, the
  latter disabled while generating), and below the filters either the loading
  placeholder, the empty state with its message and its one action, or the grid of
  insight cards.
\<close>

datatype control =
    ExportButton
  | GenerateInsightsButton (disabled: bool)
  | ConnectDataSourceLink

datatype insights_body =
    LoadingBody
  | EmptyBody string control
  | GridBody "InsightCard list"

record insights_view =
  view_header :: "control list"
  view_body :: insights_body

definition render_insights :: "engine \<Rightarrow> InsightsPage \<Rightarrow> thrown + insights_view" where
  "render_insights E s =
     (let header = [ExportButton, GenerateInsightsButton (ins_isGenerating s)]
      in if ins_isLoading s then Inr \<lparr>view_header = header, view_body = LoadingBody\<rparr>
         else if filteredInsights s = [] then
           (case get_prop E (ins_dataSources s) ''length'' of
              Inl t \<Rightarrow> Inl t
            | Inr len \<Rightarrow>
                Inr \<lparr>view_header = header,
                     view_body =
                       (if strict_eq len (JNum 0) then
                          EmptyBody
                            ''Connect a data source first, then generate AI-powered insights about your data.''
                            ConnectDataSourceLink
                        else
                          EmptyBody
                            ''Click 'Generate Insights' to analyze your connected data sources and discover patterns, anomalies, and recommendations.''
                            (GenerateInsightsButton (ins_isGenerating s)))\<rparr>)
         else Inr \<lparr>view_header = header, view_body = GridBody (filteredInsights s)\<rparr>)"

text \<open>
  One metric tile of an insight card: the label, the value, and, when \<^verbatim>\<open>change\<close> is
  neither \<^verbatim>\<open>undefined\<close> nor \<^verbatim>\<open>null\<close>, a badge with its colour variant and its two
  children (the change text and the unit). \<^verbatim>\<open>Number(v)\<close> is \<open>None\<close> for \<^verbatim>\<open>NaN\<close>.
\<close>

definition js_Number :: "engine \<Rightarrow> jsval \<Rightarrow> int option" where
  "js_Number E v =
     (case v of
        JUndefined \<Rightarrow> None
      | JNull \<Rightarrow> Some 0
      | JBool b \<Rightarrow> Some (if b then 1 else 0)
      | JNum n \<Rightarrow> Some n
      | JStr s \<Rightarrow> stringToNumber E s
      | _ \<Rightarrow> stringToNumber E (js_String v))"

definition startsWith_plus :: "string \<Rightarrow> bool" where
  "startsWith_plus s = (take 1 s = ''+'')"

datatype badge_variant = VariantSuccess | VariantDestructive

record metric_view =
  metric_label :: jsval
  metric_value :: jsval
  metric_badge :: "(badge_variant \<times> jsval list) option"

definition change_text :: "jsval \<Rightarrow> jsval" where
  "change_text change =
     (case change of
        JNum n \<Rightarrow> if n > 0 then JStr (''+'' @ number_toString n) else JNum n
      | _ \<Rightarrow> change)"

definition change_variant :: "engine \<Rightarrow> jsval \<Rightarrow> badge_variant" where
  "change_variant E change =
     (if startsWith_plus (js_String change)
         \<or> (case js_Number E change of Some n \<Rightarrow> n > 0 | None \<Rightarrow> False)
      then VariantSuccess else VariantDestructive)"

definition render_metric :: "engine \<Rightarrow> jsval \<Rightarrow> thrown + metric_view" where
  "render_metric E metric =
     (case get_prop E metric ''label'' of
        Inl t \<Rightarrow> Inl t
      | Inr label \<Rightarrow>
          let change = opt_prop metric ''change''
          in Inr \<lparr>metric_label = js_or label (opt_prop metric ''name''),
                  metric_value = opt_prop metric ''value'',
                  metric_badge =
                    (if change \<noteq> JUndefined \<and> change \<noteq> JNull
                     then Some (change_variant E change,
                                [change_text change, js_or (opt_prop metric ''unit'') (JStr [])])
                     else None)\<rparr>)"

section \<open>The integrations page (\<^verbatim>\<open>IntegrationsPage\<close>) and the integration API client\<close>

record MockIntegration =
  mock_id :: string
  mock_name :: string
  mock_type :: string
  mock_status :: string
  mock_channel :: string
  mock_lastActive :: string

definition mockIntegrations :: "MockIntegration list" where
  "mockIntegrations =
     [\<lparr>mock_id = ''1'', mock_name = ''Marketing Team Slack'', mock_type = ''slack'',
       mock_status = ''active'', mock_channel = ''#data-insights'',
       mock_lastActive = ''2 minutes ago''\<rparr>,
      \<lparr>mock_id = ''2'', mock_name = ''Executive Reports'', mock_type = ''teams'',
       mock_status = ''active'', mock_channel = ''Executive Team'',
       mock_lastActive = ''1 hour ago''\<rparr>,
      \<lparr>mock_id = ''3'', mock_name = ''Sales Alerts'', mock_type = ''slack'',
       mock_status = ''inactive'', mock_channel = ''#sales-alerts'',
       mock_lastActive = ''3 days ago''\<rparr>]"

text \<open>
  The page's state: its three React state variables, and what the user typed into the
  dialogs' uncontrolled inputs (\<^verbatim>\<open>slackToken\<close>, \<^verbatim>\<open>slackChannel\<close>, \<^verbatim>\<open>teamsWebhook\<close>,
  \<^verbatim>\<open>teamsName\<close>), which live in the DOM.
\<close>

record IntegrationsPage = effects +
  isSlackDialogOpen :: bool
  isTeamsDialogOpen :: bool
  int_isConnecting :: bool
  slackToken :: string
  slackChannel :: string
  teamsWebhook :: string
  teamsName :: string

definition initialIntegrationsPage :: IntegrationsPage where
  "initialIntegrationsPage =
     \<lparr>toasts = [], requests = [], console = [],
      isSlackDialogOpen = False, isTeamsDialogOpen = False, int_isConnecting = False,
      slackToken = [], slackChannel = [], teamsWebhook = [], teamsName = []\<rparr>"

text \<open>The page's \<^verbatim>\<open>handleConnect\<close>, after its two-second wait.\<close>

definition handleConnect_integration :: "string \<Rightarrow> IntegrationsPage \<Rightarrow> IntegrationsPage" where
  "handleConnect_integration ty s =
     (let s1 = s\<lparr>int_isConnecting := False\<rparr>;
          s2 = (if ty = ''slack'' then s1\<lparr>isSlackDialogOpen := False\<rparr>
                else s1\<lparr>isTeamsDialogOpen := False\<rparr>)
      in notify
           (ToastSuccess
             (JStr ((if ty = ''slack'' then ''Slack'' else ''Teams'')
                    @ '' integration connected successfully!'')))
           s2)"

text \<open>A row of the "Connected Integrations" list: name, channel, last activity, status.\<close>

definition connected_rows :: "(string \<times> string \<times> string \<times> string) list" where
  "connected_rows =
     map (\<lambda>i. (mock_name i, mock_channel i, mock_lastActive i, mock_status i)) mockIntegrations"

text \<open>The requests of \<^verbatim>\<open>integrationApi.setupSlack\<close> and \<^verbatim>\<open>setupTeams\<close> (\<^verbatim>\<open>lib/api.ts\<close>),
  relative to the client's base URL; an optional field that is absent is left out.\<close>

record SlackSetup =
  botToken :: string
  channelId :: "string option"

record TeamsSetup =
  webhookUrl :: string
  teamId :: "string option"

definition optional_field :: "string \<Rightarrow> string option \<Rightarrow> (string \<times> jsval) list" where
  "optional_field k v = (case v of None \<Rightarrow> [] | Some x \<Rightarrow> [(k, JStr x)])"

definition setupSlack :: "string \<Rightarrow> SlackSetup \<Rightarrow> request" where
  "setupSlack baseURL d =
     Request ''POST'' (baseURL @ ''/integrations/slack'')
       (JObj ((''botToken'', JStr (botToken d)) # optional_field ''channelId'' (channelId d)))"

definition setupTeams :: "string \<Rightarrow> TeamsSetup \<Rightarrow> request" where
  "setupTeams baseURL d =
     Request ''POST'' (baseURL @ ''/integrations/teams'')
       (JObj ((''webhookUrl'', JStr (webhookUrl d)) # optional_field ''teamId'' (teamId d)))"

section \<open>Concrete inputs\<close>

text \<open>An engine, a backend that accepts everything and answers with an empty list, and
  two data sources, used to run the definitions on concrete inputs.\<close>

definition sampleEngine :: engine where
  "sampleEngine =
     \<lparr>typeError_message = (\<lambda>p. ''Cannot read properties of null''),
      parseInt = (\<lambda>s. None),
      stringToNumber = (\<lambda>s. None),
      JSON_stringify = (\<lambda>v. JUndefined),
      toLocaleString = number_toString,
      date_toLocaleString = (\<lambda>v. ''today'')\<rparr>"

definition acceptingNetwork :: network where
  "acceptingNetwork = (\<lambda>r. Inr (Response True (Inr (JArr []))))"

definition sampleSource :: "string \<Rightarrow> string \<Rightarrow> DataSource" where
  "sampleSource i n =
     \<lparr>ds_id = i, ds_name = n, ds_type = postgresql,
      ds_config =
        \<lparr>cfg_host = Some ''db.local'', cfg_port = Some 5432, cfg_database = Some ''app'',
         cfg_username = Some ''u'', cfg_password = Some ''p'', cfg_ssl = None, cfg_url = None,
         cfg_apiKey = None, cfg_headers = None, cfg_filePath = None\<rparr>,
      ds_status = connected, ds_lastConnected = None, ds_schema = None,
      ds_createdAt = 0, ds_updatedAt = 0\<rparr>"

definition sampleExplorer :: ExplorerPage where
  "sampleExplorer =
     initialExplorerPage
       \<lparr>exp_selectedDataSource := ''ds1'', exp_query := ''SELECT 1'',
        exp_columns := JArr [JObj [(''name'', JStr ''a''), (''type'', JStr ''int'')]],
        exp_results := JArr [JArr [JNum 1]],
        exp_executionTime := Some 7, exp_isLoading := False\<rparr>"

definition rejectingNetwork :: network where
  "rejectingNetwork =
     (\<lambda>r. Inr (Response False
                 (Inr (JObj [(''detail'', JObj [(''message'', JStr ''syntax error'')])]))))"

definition raggedNetwork :: network where
  "raggedNetwork =
     (\<lambda>r. Inr (Response True
                 (Inr (JObj [(''columns'', JArr [JObj [(''name'', JStr ''a''), (''type'', JStr ''int'')]]),
                             (''rows'', JArr [JArr [JNum 1, JNum 2]])]))))"

section \<open>Properties of the store\<close>

text \<open>
  C5. For every store state and every id, \<^verbatim>\<open>removeDataSource\<close> keeps exactly the
  entries of \<^verbatim>\<open>dataSources\<close> whose id differs (in their order), so no entry with that id
  remains; a selection with that id becomes null, so no selection with the removed id
  survives; a selection with another id, or no selection, stays as it was; the other
  fields of the store are untouched.
\<close>

theorem removeDataSource_clears_selection:
  "dataSources (removeDataSource i s) = filter (\<lambda>ds. ds_id ds \<noteq> i) (dataSources s)
   \<and> set (dataSources (removeDataSource i s)) = {ds \<in> set (dataSources s). ds_id ds \<noteq> i}
   \<and> (\<forall>ds. selectedDataSource s = Some ds \<and> ds_id ds = i
          \<longrightarrow> selectedDataSource (removeDataSource i s) = None)
   \<and> (\<forall>ds. selectedDataSource (removeDataSource i s) = Some ds \<longrightarrow> ds_id ds \<noteq> i)
   \<and> (\<forall>ds. selectedDataSource s = Some ds \<and> ds_id ds \<noteq> i
          \<longrightarrow> selectedDataSource (removeDataSource i s) = Some ds)
   \<and> (selectedDataSource s = None \<longrightarrow> selectedDataSource (removeDataSource i s) = None)
   \<and> isConnecting (removeDataSource i s) = isConnecting s
   \<and> error (removeDataSource i s) = error s"
  by (auto simp: removeDataSource_def split: option.splits if_splits)


theorem removeDataSource_clears_selection_witness:
  "selectedDataSource
     \<lparr>dataSources = [sampleSource ''a'' ''Prod'', sampleSource ''b'' ''Staging''],
      selectedDataSource = Some (sampleSource ''a'' ''Prod''),
      isConnecting = False, error = None\<rparr> = Some (sampleSource ''a'' ''Prod'')
   \<and> ds_id (sampleSource ''a'' ''Prod'') = ''a''
   \<and> selectedDataSource
       (removeDataSource ''a''
         \<lparr>dataSources = [sampleSource ''a'' ''Prod'', sampleSource ''b'' ''Staging''],
          selectedDataSource = Some (sampleSource ''a'' ''Prod''),
          isConnecting = False, error = None\<rparr>) = None
   \<and> dataSources
       (removeDataSource ''a''
         \<lparr>dataSources = [sampleSource ''a'' ''Prod'', sampleSource ''b'' ''Staging''],
          selectedDataSource = Some (sampleSource ''a'' ''Prod''),
          isConnecting = False, error = None\<rparr>) = [sampleSource ''b'' ''Staging'']"
  using removeDataSource_clears_selection [of "''a''"
      "\<lparr>dataSources = [sampleSource ''a'' ''Prod'', sampleSource ''b'' ''Staging''],
        selectedDataSource = Some (sampleSource ''a'' ''Prod''),
        isConnecting = False, error = None\<rparr>"]
  by (simp add: sampleSource_def)

section \<open>Properties of the data sources page\<close>

lemma find_by_key:
  "distinct (map f xs) \<Longrightarrow> t \<in> set xs \<Longrightarrow> find (\<lambda>u. f u = f t) xs = Some t"
proof (induction xs)
  case Nil
  then show ?case by simp
next
  case (Cons x xs)
  show ?case
  proof (cases "x = t")
    case True
    then show ?thesis by simp
  next
    case False
    with Cons.prems have "t \<in> set xs" by simp
    then have "f t \<in> f ` set xs" by (rule imageI)
    with Cons.prems have "f x \<noteq> f t" by auto
    with Cons \<open>t \<in> set xs\<close> show ?thesis by simp
  qed
qed

lemma distinct_type_ids: "distinct (map type_id dataSourceTypes)"
  by (simp add: dataSourceTypes_def)

lemma find_dataSourceType:
  "t \<in> set dataSourceTypes \<Longrightarrow> find (\<lambda>u. type_id u = type_id t) dataSourceTypes = Some t"
  by (rule find_by_key [OF distinct_type_ids])

lemma default_ports:
  "map (\<lambda>t. (type_id t, defaultPort t)) dataSourceTypes =
     [(''postgresql'', ''5432''), (''mysql'', ''3306''), (''mongodb'', ''27017''),
      (''sqlite'', []), (''snowflake'', []), (''bigquery'', []), (''redshift'', ''5439''),
      (''csv'', []), (''rest_api'', [])]"
  by (simp add: dataSourceTypes_def)

text \<open>
  C8. For every form state and every type of the page's table \<^verbatim>\<open>dataSourceTypes\<close>,
  selecting the type records it as the selected type and sets the port field to the
  table's default port of that type (see \<open>default_ports\<close>); the connection name and every
  other field of the form are as before.
\<close>

theorem handleTypeSelect_sets_default_port:
  assumes "t \<in> set dataSourceTypes"
  shows "handleTypeSelect (type_id t) s =
           s\<lparr>dsp_selectedType := type_id t,
             dsp_formData := (dsp_formData s)\<lparr>port := defaultPort t\<rparr>\<rparr>
         \<and> port (dsp_formData (handleTypeSelect (type_id t) s)) = defaultPort t
         \<and> name (dsp_formData (handleTypeSelect (type_id t) s)) = name (dsp_formData s)
         \<and> dsp_formData (handleTypeSelect (type_id t) s)\<lparr>port := port (dsp_formData s)\<rparr>
             = dsp_formData s"
  using find_dataSourceType [OF assms] by (simp add: handleTypeSelect_def)

theorem handleTypeSelect_sets_default_port_witness:
  "\<lparr>type_id = ''postgresql'', type_name = ''PostgreSQL'', icon = [0x1F418],
     defaultPort = ''5432''\<rparr> \<in> set dataSourceTypes
   \<and> port (dsp_formData (handleTypeSelect ''postgresql''
        (initialDataSourcesPage\<lparr>dsp_formData := emptyForm\<lparr>name := ''Prod'', port := ''99''\<rparr>\<rparr>)))
       = ''5432''
   \<and> name (dsp_formData (handleTypeSelect ''postgresql''
        (initialDataSourcesPage\<lparr>dsp_formData := emptyForm\<lparr>name := ''Prod'', port := ''99''\<rparr>\<rparr>)))
       = ''Prod''"
proof -
  have h: "\<lparr>type_id = ''postgresql'', type_name = ''PostgreSQL'', icon = [0x1F418],
     defaultPort = ''5432''\<rparr> \<in> set dataSourceTypes"
    by (simp add: dataSourceTypes_def)
  show ?thesis
    using h handleTypeSelect_sets_default_port [OF h,
        of "initialDataSourcesPage\<lparr>dsp_formData := emptyForm\<lparr>name := ''Prod'', port := ''99''\<rparr>\<rparr>"]
    by (simp add: emptyForm_def)
qed

text \<open>
  C2. The fields the connection dialog presents, and the keys of the config it sends,
  for each selectable type: for csv and rest_api neither contains host, port, database,
  username or password (csv: the name and a file input, config \<^verbatim>\<open>file_path\<close>; rest_api:
  the name, url and API key, config \<^verbatim>\<open>url\<close>, \<^verbatim>\<open>api_key\<close>); for each of the seven other
  listed types they are the name plus host, port, database, username and password, with
  no file or url field.
\<close>

theorem connection_fields_by_type:
  "(\<forall>t \<in> set (map type_id dataSourceTypes) - {''csv'', ''rest_api''}.
      connectionDetails t =
        [NameField, HostField, PortField, DatabaseField, UsernameField, PasswordField]
      \<and> object_keys (connectionConfig E t f) =
        [''host'', ''port'', ''database'', ''username'', ''password''])
   \<and> set (map type_id dataSourceTypes) - {''csv'', ''rest_api''} =
        {''postgresql'', ''mysql'', ''mongodb'', ''sqlite'', ''snowflake'', ''bigquery'',
         ''redshift''}
   \<and> connectionDetails ''csv'' = [NameField, FileField]
   \<and> object_keys (connectionConfig E ''csv'' f) = [''file_path'']
   \<and> connectionDetails ''rest_api'' = [NameField, UrlField, ApiKeyField]
   \<and> object_keys (connectionConfig E ''rest_api'' f) = [''url'', ''api_key'']"
  by (auto simp: dataSourceTypes_def connectionDetails_def connectionConfig_def)

theorem connection_fields_by_type_witness:
  "''mysql'' \<in> set (map type_id dataSourceTypes) - {''csv'', ''rest_api''}
   \<and> connectionDetails ''mysql'' =
        [NameField, HostField, PortField, DatabaseField, UsernameField, PasswordField]
   \<and> object_keys (connectionConfig sampleEngine ''mysql'' emptyForm) =
        [''host'', ''port'', ''database'', ''username'', ''password'']"
proof -
  have h: "''mysql'' \<in> set (map type_id dataSourceTypes) - {''csv'', ''rest_api''}"
    by (simp add: dataSourceTypes_def)
  from connection_fields_by_type [of sampleEngine emptyForm, THEN conjunct1, THEN bspec, OF h] h
  show ?thesis by (rule_tac conjI)
qed

lemma send_fileInput:
  "send r (s\<lparr>dsp_fileInput := f\<rparr>) = (send r s)\<lparr>dsp_fileInput := f\<rparr>"
  by (simp add: send_def)

lemma notify_fileInput:
  "notify t (s\<lparr>dsp_fileInput := f\<rparr>) = (notify t s)\<lparr>dsp_fileInput := f\<rparr>"
  by (simp add: notify_def)

lemma console_error_fileInput:
  "console_error l t (s\<lparr>dsp_fileInput := f\<rparr>) = (console_error l t s)\<lparr>dsp_fileInput := f\<rparr>"
  by (simp add: console_error_def)

lemma loadDataSources_fileInput:
  "loadDataSources E net (s\<lparr>dsp_fileInput := f\<rparr>) =
     (loadDataSources E net s)\<lparr>dsp_fileInput := f\<rparr>"
  by (simp add: loadDataSources_def send_fileInput console_error_fileInput Let_def
      split: sum.splits)

lemma connect_try_fileInput:
  "connect_try E net r (s\<lparr>dsp_fileInput := f\<rparr>) =
     (case connect_try E net r s of
        Inl t \<Rightarrow> Inl t
      | Inr s' \<Rightarrow> Inr (s'\<lparr>dsp_fileInput := f\<rparr>))"
  by (simp add: connect_try_def loadDataSources_fileInput notify_fileInput resetForm_def
      split: sum.splits)

lemma create_request_fileInput:
  "create_request E (s\<lparr>dsp_fileInput := f\<rparr>) = create_request E s"
  by (simp add: create_request_def)

lemma handleConnect_fileInput:
  "handleConnect E net (s\<lparr>dsp_fileInput := f\<rparr>) =
     (handleConnect E net s)\<lparr>dsp_fileInput := f\<rparr>"
  by (simp add: handleConnect_def Let_def create_request_fileInput send_fileInput
      connect_try_fileInput notify_fileInput console_error_fileInput split: sum.splits)

lemma requests_loadDataSources:
  "requests (loadDataSources E net s) = requests s @ [Request ''GET'' datasources_url JUndefined]"
  by (simp add: loadDataSources_def send_def console_error_def Let_def split: sum.splits)

text \<open>
  C10. When the selected type is csv and a connection name has been entered, the request
  that creates the data source is a POST whose body is the name, the type csv and the
  config \<^verbatim>\<open>{file_path: <connection name>}\<close>; the handler sends that request and, when the
  backend accepts it, the GET that reloads the list, and nothing else; the file chosen in
  the upload input has no influence on what the handler does.
\<close>

theorem csv_config_is_connection_name:
  assumes "dsp_selectedType s = ''csv''" and "name (dsp_formData s) \<noteq> []"
  shows "create_request E s =
           Request ''POST'' datasources_url
             (JObj [(''name'', JStr (name (dsp_formData s))),
                    (''type'', JStr ''csv''),
                    (''config'', JObj [(''file_path'', JStr (name (dsp_formData s)))])])
         \<and> requests (handleConnect E net s) =
             requests s @ [create_request E s]
               @ (case net (create_request E s) of
                    Inl t \<Rightarrow> []
                  | Inr response \<Rightarrow>
                      if ok response then [Request ''GET'' datasources_url JUndefined] else [])
         \<and> handleConnect E net (s\<lparr>dsp_fileInput := file\<rparr>) =
             (handleConnect E net s)\<lparr>dsp_fileInput := file\<rparr>"
proof -
  have a: "create_request E s =
           Request ''POST'' datasources_url
             (JObj [(''name'', JStr (name (dsp_formData s))),
                    (''type'', JStr ''csv''),
                    (''config'', JObj [(''file_path'', JStr (name (dsp_formData s)))])])"
    using assms by (simp add: create_request_def connectionConfig_def)
  have b: "requests (handleConnect E net s) =
             requests s @ [create_request E s]
               @ (case net (create_request E s) of
                    Inl t \<Rightarrow> []
                  | Inr response \<Rightarrow>
                      if ok response then [Request ''GET'' datasources_url JUndefined] else [])"
    using assms(2)
    by (simp add: handleConnect_def connect_try_def Let_def notify_def console_error_def
        resetForm_def requests_loadDataSources send_def split: sum.splits)
  have c: "handleConnect E net (s\<lparr>dsp_fileInput := file\<rparr>) =
             (handleConnect E net s)\<lparr>dsp_fileInput := file\<rparr>"
    by (rule handleConnect_fileInput)
  from a b c show ?thesis by blast
qed



theorem csv_config_is_connection_name_witness:
  "dsp_selectedType
     (initialDataSourcesPage\<lparr>dsp_selectedType := ''csv'',
        dsp_formData := emptyForm\<lparr>name := ''sales''\<rparr>,
        dsp_fileInput := Some ''report.csv''\<rparr>) = ''csv''
   \<and> name (dsp_formData
       (initialDataSourcesPage\<lparr>dsp_selectedType := ''csv'',
          dsp_formData := emptyForm\<lparr>name := ''sales''\<rparr>,
          dsp_fileInput := Some ''report.csv''\<rparr>)) \<noteq> []
   \<and> requests (handleConnect sampleEngine acceptingNetwork
       (initialDataSourcesPage\<lparr>dsp_selectedType := ''csv'',
          dsp_formData := emptyForm\<lparr>name := ''sales''\<rparr>,
          dsp_fileInput := Some ''report.csv''\<rparr>)) =
       [Request ''POST'' datasources_url
          (JObj [(''name'', JStr ''sales''), (''type'', JStr ''csv''),
                 (''config'', JObj [(''file_path'', JStr ''sales'')])]),
        Request ''GET'' datasources_url JUndefined]"
proof -
  let ?s = "initialDataSourcesPage\<lparr>dsp_selectedType := ''csv'',
          dsp_formData := emptyForm\<lparr>name := ''sales''\<rparr>,
          dsp_fileInput := Some ''report.csv''\<rparr>"
  have h1: "dsp_selectedType ?s = ''csv''" by simp
  have h2: "name (dsp_formData ?s) \<noteq> []" by simp
  note T = csv_config_is_connection_name [OF h1 h2, of sampleEngine acceptingNetwork]
  have r: "create_request sampleEngine ?s =
      Request ''POST'' datasources_url
          (JObj [(''name'', JStr ''sales''), (''type'', JStr ''csv''),
                 (''config'', JObj [(''file_path'', JStr ''sales'')])])"
    using T [THEN conjunct1] by simp
  have "requests (handleConnect sampleEngine acceptingNetwork ?s) =
       [Request ''POST'' datasources_url
          (JObj [(''name'', JStr ''sales''), (''type'', JStr ''csv''),
                 (''config'', JObj [(''file_path'', JStr ''sales'')])]),
        Request ''GET'' datasources_url JUndefined]"
    unfolding T [THEN conjunct2, THEN conjunct1] r
    by (simp add: initialDataSourcesPage_def acceptingNetwork_def)
  with h1 h2 show ?thesis by blast
qed
end
